theory Spec2Isabelle
  imports Main
begin

section \<open>Python values read by the message formatter\<close>

text \<open>
  The module \<^verbatim>\<open>buildbot/reporters/message.py\<close> tests several optional values for
  truth: \<^verbatim>\<open>None\<close> is false, the integer zero is false and the empty string is
  false; every other integer and string is true.
\<close>

definition truthy_int :: "int option \<Rightarrow> bool" where
  "truthy_int v = (case v of None \<Rightarrow> False | Some n \<Rightarrow> n \<noteq> 0)"

definition truthy_str :: "string option \<Rightarrow> bool" where
  "truthy_str v = (case v of None \<Rightarrow> False | Some s \<Rightarrow> s \<noteq> [])"

text \<open>
  The result codes and \<^verbatim>\<open>statusToString\<close> are imported from
  \<^verbatim>\<open>buildbot.process.results\<close>, which is not among the sources. The functions of
  this module take them as a parameter: a record of the five codes the module names
  and of the display-name function. A result is \<^verbatim>\<open>None\<close> (the build has not
  finished) or an integer code.
\<close>

record results_module =
  SUCCESS :: int
  WARNINGS :: int
  FAILURE :: int
  EXCEPTION :: int
  CANCELLED :: int
  statusToString :: "int option \<Rightarrow> string"

text \<open>
  Modelled from the spec: the result codes and display names of
  \<^verbatim>\<open>buildbot.process.results\<close>, which is missing from the sources. Section 3 of
  the specification names the codes SUCCESS, WARNINGS, FAILURE, EXCEPTION and CANCELLED
  beside further numeric codes, and section 4.1 calls the generic status word the
  canonical display name of the code. The instance numbers seven codes from zero, with
  SKIPPED and RETRY as the further ones; it serves to evaluate the functions at
  concrete inputs, and every general statement below quantifies over the module.
\<close>

definition Results :: "string list" where
  "Results = [''success'', ''warnings'', ''failure'', ''skipped'', ''exception'',
              ''retry'', ''cancelled'']"

definition buildbot_results :: results_module where
  "buildbot_results =
     \<lparr>SUCCESS = 0, WARNINGS = 1, FAILURE = 2, EXCEPTION = 4, CANCELLED = 6,
      statusToString = (\<lambda>status. case status of
          None \<Rightarrow> ''not finished''
        | Some n \<Rightarrow> if n < 0 \<or> int (length Results) \<le> n then ''Invalid status''
                   else Results ! nat n)\<rparr>"

section \<open>Build records\<close>

text \<open>
  A source stamp. Each field is \<^verbatim>\<open>None\<close> or a string; the revision is held as the
  string that \<^verbatim>\<open>str\<close> gives, and of the patch only its presence is read.
\<close>

record sourcestamp =
  branch :: "string option"
  revision :: "string option"
  patch :: "string option"
  codebase :: "string option"
  project :: "string option"

record buildset =
  sourcestamps :: "sourcestamp list"

record builder =
  builderid :: int
  builder_name :: string

text \<open>Of the previous build only the result is read.\<close>

record prev_build =
  prev_results :: "int option"

text \<open>
  A build as the data API hands it over. A property is a pair of the value and its
  source. The field \<open>build_prev_build\<close> is \<open>None\<close> both when the key
  \<^verbatim>\<open>prev_build\<close> is absent and when it is bound to \<^verbatim>\<open>None\<close>: the code treats
  the two alike.
\<close>

record build =
  build_results :: "int option"
  build_state_string :: "string option"
  build_properties :: "string \<rightharpoonup> (string \<times> string)"
  build_builder :: builder
  build_number :: int
  build_buildset :: buildset
  build_prev_build :: "prev_build option"

record master =
  config_title :: string
  config_buildbotURL :: string

record worker =
  workerid :: int
  worker_name :: string

section \<open>Status texts\<close>

definition get_detected_status_text ::
  "results_module \<Rightarrow> string list \<Rightarrow> int option \<Rightarrow> int option \<Rightarrow> string" where
  "get_detected_status_text R mode results previous_results =
     (if results = Some (FAILURE R) then
        (if ''change'' \<in> set mode \<and> previous_results \<noteq> None \<and> previous_results \<noteq> results
         then ''new failure''
         else if ''problem'' \<in> set mode \<and> truthy_int previous_results
                 \<and> previous_results \<noteq> Some (FAILURE R)
         then ''new failure''
         else ''failed build'')
      else if results = Some (WARNINGS R) then ''problem in the build''
      else if results = Some (SUCCESS R) then
        (if ''change'' \<in> set mode \<and> previous_results \<noteq> None \<and> previous_results \<noteq> results
         then ''restored build''
         else ''passing build'')
      else if results = Some (EXCEPTION R) then ''build exception''
      else statusToString R results @ '' build'')"

definition get_message_summary_text :: "results_module \<Rightarrow> build \<Rightarrow> int option \<Rightarrow> string" where
  "get_message_summary_text R build results =
     (let t = build_state_string build;
          t = (if truthy_str t then '': '' @ the t else [])
      in if results = Some (SUCCESS R) then ''Build succeeded!''
         else if results = Some (WARNINGS R) then ''Build Had Warnings'' @ t
         else if results = Some (CANCELLED R) then ''Build was cancelled''
         else ''BUILD FAILED'' @ t)"

text \<open>
  The loop of \<^verbatim>\<open>get_message_source_stamp_text\<close> over the source stamps, with the
  text built so far as its state.
\<close>

fun source_stamp_loop :: "string \<Rightarrow> sourcestamp list \<Rightarrow> string" where
  "source_stamp_loop text [] = text"
| "source_stamp_loop text (ss # source_stamps) =
     (let source = [];
          source = (if truthy_str (branch ss)
                    then source @ ''[branch '' @ the (branch ss) @ ''] '' else source);
          source = (if truthy_str (revision ss)
                    then source @ the (revision ss) else source @ ''HEAD'');
          source = (if patch ss \<noteq> None then source @ '' (plus patch)'' else source);
          discriminator = [];
          discriminator = (if truthy_str (codebase ss)
                           then '' '' @ [CHR 0x27] @ the (codebase ss) @ [CHR 0x27]
                           else discriminator)
      in source_stamp_loop
           (text @ ''Build Source Stamp'' @ discriminator @ '': '' @ source @ [CHR 0x0A])
           source_stamps)"

definition get_message_source_stamp_text :: "sourcestamp list \<Rightarrow> string" where
  "get_message_source_stamp_text source_stamps = source_stamp_loop [] source_stamps"

text \<open>The method \<^verbatim>\<open>str.join\<close>.\<close>

fun join :: "string \<Rightarrow> string list \<Rightarrow> string" where
  "join sep [] = []"
| "join sep [x] = x"
| "join sep (x # y # ys) = x @ sep @ join sep (y # ys)"

text \<open>The loop of \<^verbatim>\<open>get_projects_text\<close>, with the set of projects as its state.\<close>

fun projects_loop :: "string set \<Rightarrow> sourcestamp list \<Rightarrow> string set" where
  "projects_loop projects [] = projects"
| "projects_loop projects (ss # source_stamps) =
     projects_loop
       (if truthy_str (project ss) then insert (the (project ss)) projects else projects)
       source_stamps"

text \<open>
  \<^verbatim>\<open>list(projects)\<close> enumerates a Python set in an order the language leaves open.
  The enumeration is a parameter \<open>list_of\<close> of the function; what Python promises
  of it, each member once and nothing else, is the predicate \<open>enumerates\<close>.
\<close>

definition enumerates :: "('a set \<Rightarrow> 'a list) \<Rightarrow> 'a set \<Rightarrow> bool" where
  "enumerates list_of S = (set (list_of S) = S \<and> distinct (list_of S))"

definition get_projects_text ::
  "(string set \<Rightarrow> string list) \<Rightarrow> sourcestamp list \<Rightarrow> master \<Rightarrow> string" where
  "get_projects_text list_of source_stamps master =
     (let projects = projects_loop {} source_stamps
      in if projects = {} then join '', '' [config_title master]
         else join '', '' (list_of projects))"

section \<open>Templates\<close>

datatype error =
    ConfigErrors string
  | TemplateNotFound string
  | TemplateSyntaxError
  | UndefinedError string
  | HookError string

text \<open>
  Modelled from the spec: \<^verbatim>\<open>config.error\<close> of \<^verbatim>\<open>buildbot.config\<close>, which is
  missing from the sources. Sections 4.3 and 7 of the specification say that the
  configuration fails with a ConfigurationError, raised to the caller.
\<close>

definition config_error :: "string \<Rightarrow> error + 'a" where
  "config_error msg = Inl (ConfigErrors msg)"

text \<open>
  The values a rendering context holds: strings, result codes, lists of strings (the
  mode and the blamelist) and the records passed through.
\<close>

datatype ctxval =
    CNone
  | CInt int
  | CStr string
  | CStrs "string list"
  | CBuildset buildset
  | CBuild build
  | CWorker worker

type_synonym rendering_context = "string \<rightharpoonup> ctxval"

definition of_results :: "int option \<Rightarrow> ctxval" where
  "of_results r = (case r of None \<Rightarrow> CNone | Some n \<Rightarrow> CInt n)"

text \<open>
  Jinja2 is a library outside the repository. The part of it the formatter relies on:
  a compiled template is a sequence of nodes, literal data or the name of a context
  variable to print, together with the kind of undefined value its environment was
  built with. Printing a name the context does not bind yields the empty string under
  the default \<^verbatim>\<open>Undefined\<close> and raises \<^verbatim>\<open>UndefinedError\<close> under
  \<^verbatim>\<open>StrictUndefined\<close>.
\<close>

datatype node = TemplateData string | Name string

datatype undefined_type = Undefined | StrictUndefined

record template =
  nodes :: "node list"
  undefined_kind :: undefined_type

text \<open>
  What the module receives from its surroundings: the Jinja2 compiler, which answers
  \<open>None\<close> where it raises \<^verbatim>\<open>TemplateSyntaxError\<close>, and the string conversion it
  prints values with, the template files by directory and name, the
  directory \<^verbatim>\<open>templates\<close> beside the module, the enumeration order of sets, and
  \<^verbatim>\<open>utils.getURLForBuild\<close> and the result codes, both imported from modules that
  are not among the sources.
\<close>

record env =
  jinja_compile :: "string \<Rightarrow> node list option"
  jinja_str :: "ctxval \<Rightarrow> string"
  template_files :: "string \<Rightarrow> string \<rightharpoonup> string"
  bundled_templates :: string
  list_of_set :: "string set \<Rightarrow> string list"
  getURLForBuild :: "master \<Rightarrow> int \<Rightarrow> int \<Rightarrow> string"
  results_module :: results_module

fun render_nodes ::
  "(ctxval \<Rightarrow> string) \<Rightarrow> undefined_type \<Rightarrow> node list \<Rightarrow> rendering_context \<Rightarrow> error + string" where
  "render_nodes str u [] ctx = Inr []"
| "render_nodes str u (TemplateData d # ns) ctx =
     (case render_nodes str u ns ctx of Inl e \<Rightarrow> Inl e | Inr r \<Rightarrow> Inr (d @ r))"
| "render_nodes str u (Name k # ns) ctx =
     (case ctx k of
        Some v \<Rightarrow> (case render_nodes str u ns ctx of Inl e \<Rightarrow> Inl e | Inr r \<Rightarrow> Inr (str v @ r))
      | None \<Rightarrow> (case u of
                  StrictUndefined \<Rightarrow> Inl (UndefinedError k)
                | Undefined \<Rightarrow> render_nodes str u ns ctx))"

definition render :: "env \<Rightarrow> template \<Rightarrow> rendering_context \<Rightarrow> error + string" where
  "render E t ctx = render_nodes (jinja_str E) (undefined_kind t) (nodes t) ctx"

text \<open>\<^verbatim>\<open>jinja2.Template(content)\<close>: compiled in the default environment.\<close>

definition jinja2_Template :: "env \<Rightarrow> string \<Rightarrow> error + template" where
  "jinja2_Template E content =
     (case jinja_compile E content of
        None \<Rightarrow> Inl TemplateSyntaxError
      | Some ns \<Rightarrow> Inr \<lparr>nodes = ns, undefined_kind = Undefined\<rparr>)"

text \<open>
  \<^verbatim>\<open>jinja2.Environment(loader=FileSystemLoader(dirname), undefined=undef)\<close>
  followed by \<^verbatim>\<open>get_template(filename)\<close>.
\<close>

definition get_template :: "env \<Rightarrow> string \<Rightarrow> undefined_type \<Rightarrow> string \<Rightarrow> error + template" where
  "get_template E dirname undef filename =
     (case template_files E dirname filename of
        None \<Rightarrow> Inl (TemplateNotFound filename)
      | Some source \<Rightarrow>
          (case jinja_compile E source of
             None \<Rightarrow> Inl TemplateSyntaxError
           | Some ns \<Rightarrow> Inr \<lparr>nodes = ns, undefined_kind = undef\<rparr>))"

section \<open>Message formatters\<close>

datatype formatter_class = MessageFormatterBase | MessageFormatter | MessageFormatterMissingWorker

fun class_template_filename :: "formatter_class \<Rightarrow> string" where
  "class_template_filename MessageFormatterBase = ''default_mail.txt''"
| "class_template_filename MessageFormatter = ''default_mail.txt''"
| "class_template_filename MessageFormatterMissingWorker = ''missing_mail.txt''"

fun class_template_type :: "formatter_class \<Rightarrow> string" where
  "class_template_type cls = ''plain''"

text \<open>
  A formatter instance. \<open>buildAdditionalContext\<close> is the method a subclass may
  override; it receives the context and hands back the context it leaves behind, or
  raises.
\<close>

record formatter =
  self_class :: formatter_class
  body_template :: template
  subject_template :: "template option"
  self_template_type :: string
  self_ctx :: rendering_context
  buildAdditionalContext :: "master \<Rightarrow> rendering_context \<Rightarrow> error + rendering_context"

text \<open>The method of the base class: \<^verbatim>\<open>pass\<close>.\<close>

definition default_buildAdditionalContext :: "master \<Rightarrow> rendering_context \<Rightarrow> error + rendering_context" where
  "default_buildAdditionalContext master ctx = Inr ctx"

definition getTemplate ::
  "env \<Rightarrow> formatter_class \<Rightarrow> string option \<Rightarrow> string option \<Rightarrow> string option
     \<Rightarrow> error + template" where
  "getTemplate E cls filename dirname content =
     (if truthy_str content \<and> (truthy_str filename \<or> truthy_str dirname)
      then config_error ''Only one of template or template path can be given''
      else if truthy_str content then jinja2_Template E (the content)
      else
        (let dirname = (case dirname of None \<Rightarrow> bundled_templates E | Some d \<Rightarrow> d);
             filename = (case filename of None \<Rightarrow> class_template_filename cls | Some f \<Rightarrow> f)
         in get_template E dirname StrictUndefined filename))"

text \<open>
  \<^verbatim>\<open>MessageFormatterBase.__init__\<close>. The class and the method
  \<open>buildAdditionalContext\<close> of the instance come first, the keyword arguments
  follow in the order of the source.
\<close>

definition init ::
  "env \<Rightarrow> formatter_class \<Rightarrow> (master \<Rightarrow> rendering_context \<Rightarrow> error + rendering_context)
     \<Rightarrow> string option \<Rightarrow> string option \<Rightarrow> string option \<Rightarrow> string option \<Rightarrow> string option
     \<Rightarrow> string option \<Rightarrow> rendering_context option \<Rightarrow> error + formatter" where
  "init E cls hook template_dir template_filename template subject_filename subject
        template_type ctx =
     (case getTemplate E cls template_filename template_dir template of
        Inl e \<Rightarrow> Inl e
      | Inr body \<Rightarrow>
          (case (if truthy_str subject_filename \<or> truthy_str subject
                 then (case getTemplate E cls subject_filename template_dir subject of
                         Inl e \<Rightarrow> Inl e
                       | Inr t \<Rightarrow> Inr (Some t))
                 else Inr None) of
             Inl e \<Rightarrow> Inl e
           | Inr subject_t \<Rightarrow>
               Inr \<lparr>self_class = cls,
                    body_template = body,
                    subject_template = subject_t,
                    self_template_type =
                      (case template_type of None \<Rightarrow> class_template_type cls | Some t \<Rightarrow> t),
                    self_ctx = (case ctx of None \<Rightarrow> Map.empty | Some c \<Rightarrow> c),
                    buildAdditionalContext = hook\<rparr>))"

type_synonym msgdict = "string \<rightharpoonup> string"

definition renderMessage :: "env \<Rightarrow> formatter \<Rightarrow> rendering_context \<Rightarrow> error + msgdict" where
  "renderMessage E self ctx =
     (case render E (body_template self) ctx of
        Inl e \<Rightarrow> Inl e
      | Inr body \<Rightarrow>
          (let msgdict = [''body'' \<mapsto> body, ''type'' \<mapsto> self_template_type self]
           in case subject_template self of
                None \<Rightarrow> Inr msgdict
              | Some st \<Rightarrow>
                  (case render E st ctx of
                     Inl e \<Rightarrow> Inl e
                   | Inr subject \<Rightarrow> Inr (msgdict(''subject'' \<mapsto> subject)))))"

text \<open>\<^verbatim>\<open>dict.update\<close>: the bindings of the argument replace or extend those of the dictionary.\<close>

definition update :: "('k \<rightharpoonup> 'v) \<Rightarrow> ('k \<rightharpoonup> 'v) \<Rightarrow> ('k \<rightharpoonup> 'v)" where
  "update d other = (\<lambda>k. case other k of Some v \<Rightarrow> Some v | None \<Rightarrow> d k)"

text \<open>The context \<^verbatim>\<open>format_message_for_build\<close> computes before it calls the hook.\<close>

definition build_context ::
  "env \<Rightarrow> string list \<Rightarrow> string \<Rightarrow> build \<Rightarrow> master \<Rightarrow> string list \<Rightarrow> rendering_context" where
  "build_context E mode buildername build master blamelist =
     (let buildset = build_buildset build;
          ss_list = sourcestamps buildset;
          results = build_results build;
          previous_results =
            (case build_prev_build build of Some pb \<Rightarrow> prev_results pb | None \<Rightarrow> None)
      in [''results'' \<mapsto> of_results (build_results build),
          ''mode'' \<mapsto> CStrs mode,
          ''buildername'' \<mapsto> CStr buildername,
          ''workername'' \<mapsto>
             CStr (case build_properties build ''workername'' of
                     None \<Rightarrow> ''<unknown>'' | Some (v, source) \<Rightarrow> v),
          ''buildset'' \<mapsto> CBuildset buildset,
          ''build'' \<mapsto> CBuild build,
          ''projects'' \<mapsto> CStr (get_projects_text (list_of_set E) ss_list master),
          ''previous_results'' \<mapsto> of_results previous_results,
          ''status_detected'' \<mapsto>
             CStr (get_detected_status_text (results_module E) mode results previous_results),
          ''build_url'' \<mapsto>
             CStr (getURLForBuild E master (builderid (build_builder build)) (build_number build)),
          ''buildbot_url'' \<mapsto> CStr (config_buildbotURL master),
          ''blamelist'' \<mapsto> CStrs blamelist,
          ''summary'' \<mapsto> CStr (get_message_summary_text (results_module E) build results),
          ''sourcestamps'' \<mapsto> CStr (get_message_source_stamp_text ss_list)])"

definition format_message_for_build ::
  "env \<Rightarrow> formatter \<Rightarrow> string list \<Rightarrow> string \<Rightarrow> build \<Rightarrow> master \<Rightarrow> string list
     \<Rightarrow> error + msgdict" where
  "format_message_for_build E self mode buildername build master blamelist =
     (let ctx = build_context E mode buildername build master blamelist
      in case buildAdditionalContext self master ctx of
           Inl e \<Rightarrow> Inl e
         | Inr ctx \<Rightarrow>
             (let ctx = update ctx (self_ctx self)
              in renderMessage E self ctx))"

text \<open>The context \<^verbatim>\<open>formatMessageForMissingWorker\<close> computes before it calls the hook.\<close>

definition missing_worker_context :: "master \<Rightarrow> worker \<Rightarrow> rendering_context" where
  "missing_worker_context master worker =
     [''buildbot_title'' \<mapsto> CStr (config_title master),
      ''buildbot_url'' \<mapsto> CStr (config_buildbotURL master),
      ''worker'' \<mapsto> CWorker worker]"

definition formatMessageForMissingWorker ::
  "env \<Rightarrow> formatter \<Rightarrow> master \<Rightarrow> worker \<Rightarrow> error + msgdict" where
  "formatMessageForMissingWorker E self master worker =
     (let ctx = missing_worker_context master worker
      in case buildAdditionalContext self master ctx of
           Inl e \<Rightarrow> Inl e
         | Inr ctx \<Rightarrow>
             (let ctx = update ctx (self_ctx self)
              in renderMessage E self ctx))"

section \<open>The line of a source stamp, as the specification words it\<close>

text \<open>
  Section 4.1 of the specification describes the text of one source stamp: the words
  \<^verbatim>\<open>Build Source Stamp\<close>, the codebase in single quotes when it is non-empty, a
  colon, the branch in brackets when it is non-empty, the revision or \<^verbatim>\<open>HEAD\<close>,
  the note of a patch when one is present, and a newline. This definition follows
  those words; \<open>get_message_source_stamp_text\<close> above follows the code.
\<close>

definition spec_source_stamp_line :: "sourcestamp \<Rightarrow> string" where
  "spec_source_stamp_line ss =
     ''Build Source Stamp''
     @ (case codebase ss of
          None \<Rightarrow> []
        | Some c \<Rightarrow> if c = [] then [] else '' '' @ [CHR 0x27] @ c @ [CHR 0x27])
     @ '': ''
     @ (case branch ss of
          None \<Rightarrow> []
        | Some b \<Rightarrow> if b = [] then [] else ''[branch '' @ b @ ''] '')
     @ (case revision ss of
          None \<Rightarrow> ''HEAD''
        | Some r \<Rightarrow> if r = [] then ''HEAD'' else r)
     @ (case patch ss of None \<Rightarrow> [] | Some p \<Rightarrow> '' (plus patch)'')
     @ [CHR 0x0A]"

section \<open>An environment to evaluate in\<close>

text \<open>
  The statements below hold for every environment. To run the functions on concrete
  inputs, this section fixes one: a compiler for the templates that consist of literal
  text and of variables between double braces, a string conversion that prints a
  string as itself, two bundled template files and one subject file, an enumeration
  of sets of project names drawn from a fixed list, and the seven result codes above.
\<close>

definition strip :: "string \<Rightarrow> string" where
  "strip s = rev (dropWhile (\<lambda>c. c = CHR '' '') (rev (dropWhile (\<lambda>c. c = CHR '' '') s)))"

definition data_node :: "string \<Rightarrow> node list" where
  "data_node d = (if d = [] then [] else [TemplateData d])"

fun scan :: "bool \<Rightarrow> string \<Rightarrow> string \<Rightarrow> node list option" where
  "scan in_expr acc [] = (if in_expr then None else Some (data_node acc))"
| "scan in_expr acc [c] = (if in_expr then None else Some (data_node (acc @ [c])))"
| "scan in_expr acc (c # d # cs) =
     (if in_expr then
        (if c = CHR ''}'' \<and> d = CHR ''}''
         then (case scan False [] cs of
                 None \<Rightarrow> None
               | Some ns \<Rightarrow> Some (Name (strip acc) # ns))
         else scan True (acc @ [c]) (d # cs))
      else
        (if c = CHR ''{'' \<and> d = CHR ''{''
         then (case scan True [] cs of
                 None \<Rightarrow> None
               | Some ns \<Rightarrow> Some (data_node acc @ ns))
         else scan False (acc @ [c]) (d # cs)))"

definition example_compile :: "string \<Rightarrow> node list option" where
  "example_compile content = scan False [] content"

fun example_str :: "ctxval \<Rightarrow> string" where
  "example_str (CStr s) = s"
| "example_str CNone = ''None''"
| "example_str v = ''<object>''"

definition example_files :: "string \<Rightarrow> string \<rightharpoonup> string" where
  "example_files dirname =
     (if dirname = ''/buildbot/reporters/templates''
      then [''default_mail.txt'' \<mapsto> ''{{ summary }} on {{ buildername }}'',
            ''missing_mail.txt'' \<mapsto> ''{{ buildbot_title }} lost a worker'',
            ''subject.txt'' \<mapsto> ''{{ status_detected }}'']
      else Map.empty)"

definition example_list_of_set :: "string set \<Rightarrow> string list" where
  "example_list_of_set S = filter (\<lambda>p. p \<in> S) [''B'', ''A'', ''X'']"

definition example_env :: env where
  "example_env =
     \<lparr>jinja_compile = example_compile,
      jinja_str = example_str,
      template_files = example_files,
      bundled_templates = ''/buildbot/reporters/templates'',
      list_of_set = example_list_of_set,
      getURLForBuild = (\<lambda>master builderid number. config_buildbotURL master @ ''#builders''),
      results_module = buildbot_results\<rparr>"

definition example_master :: master where
  "example_master = \<lparr>config_title = ''Buildbot'', config_buildbotURL = ''http://localhost:8010/''\<rparr>"

definition example_worker :: worker where
  "example_worker = \<lparr>workerid = 1, worker_name = ''w1''\<rparr>"

definition stamp :: "string \<Rightarrow> sourcestamp" where
  "stamp p = \<lparr>branch = Some ''main'', revision = Some ''abc123'', patch = None,
              codebase = Some [], project = Some p\<rparr>"

definition example_build :: build where
  "example_build =
     \<lparr>build_results = Some 0,
      build_state_string = Some ''compiling'',
      build_properties = [''workername'' \<mapsto> (''w1'', ''Worker'')],
      build_builder = \<lparr>builderid = 3, builder_name = ''runtests''\<rparr>,
      build_number = 7,
      build_buildset = \<lparr>sourcestamps = [stamp ''A'', stamp ''B'', stamp ''A'']\<rparr>,
      build_prev_build = Some \<lparr>prev_results = Some 2\<rparr>\<rparr>"

text \<open>
  Two formatters for a missing worker whose body prints \<^verbatim>\<open>status_detected\<close>, a name
  the context of a missing worker does not bind: one as the constructor builds it from
  the inline template, one as it builds it from the file \<^verbatim>\<open>subject.txt\<close>.
\<close>

definition inline_formatter :: formatter where
  "inline_formatter =
     \<lparr>self_class = MessageFormatterMissingWorker,
      body_template = \<lparr>nodes = [Name ''status_detected''], undefined_kind = Undefined\<rparr>,
      subject_template = None,
      self_template_type = ''plain'',
      self_ctx = Map.empty,
      buildAdditionalContext = default_buildAdditionalContext\<rparr>"

definition file_formatter :: formatter where
  "file_formatter =
     \<lparr>self_class = MessageFormatterMissingWorker,
      body_template = \<lparr>nodes = [Name ''status_detected''], undefined_kind = StrictUndefined\<rparr>,
      subject_template = None,
      self_template_type = ''plain'',
      self_ctx = Map.empty,
      buildAdditionalContext = default_buildAdditionalContext\<rparr>"

text \<open>
  A formatter with the bundled body and the subject file \<^verbatim>\<open>subject.txt\<close>, a context
  that binds what the two templates print, and a formatter whose inline body prints
  \<^verbatim>\<open>summary\<close> and whose extra context binds \<^verbatim>\<open>summary\<close> itself.
\<close>

definition mail_formatter :: formatter where
  "mail_formatter =
     \<lparr>self_class = MessageFormatter,
      body_template =
        \<lparr>nodes = [Name ''summary'', TemplateData '' on '', Name ''buildername''],
         undefined_kind = StrictUndefined\<rparr>,
      subject_template =
        Some \<lparr>nodes = [Name ''status_detected''], undefined_kind = StrictUndefined\<rparr>,
      self_template_type = ''plain'',
      self_ctx = Map.empty,
      buildAdditionalContext = default_buildAdditionalContext\<rparr>"

definition example_context :: rendering_context where
  "example_context =
     [''summary'' \<mapsto> CStr ''Build succeeded!'',
      ''buildername'' \<mapsto> CStr ''runtests'',
      ''status_detected'' \<mapsto> CStr ''passing build'']"

definition override_formatter :: formatter where
  "override_formatter =
     \<lparr>self_class = MessageFormatter,
      body_template = \<lparr>nodes = [Name ''summary''], undefined_kind = Undefined\<rparr>,
      subject_template = None,
      self_template_type = ''plain'',
      self_ctx = [''summary'' \<mapsto> CStr ''overridden''],
      buildAdditionalContext = default_buildAdditionalContext\<rparr>"

text \<open>
  A formatter for a missing worker whose inline body prints \<^verbatim>\<open>buildbot_title\<close> and
  whose extra context binds \<^verbatim>\<open>buildbot_title\<close> itself.
\<close>

definition worker_override_formatter :: formatter where
  "worker_override_formatter =
     \<lparr>self_class = MessageFormatterMissingWorker,
      body_template = \<lparr>nodes = [Name ''buildbot_title''], undefined_kind = Undefined\<rparr>,
      subject_template = None,
      self_template_type = ''plain'',
      self_ctx = [''buildbot_title'' \<mapsto> CStr ''overridden''],
      buildAdditionalContext = default_buildAdditionalContext\<rparr>"

section \<open>Status texts: what the functions return\<close>

text \<open>
  Claim C2. For a failed build, \<open>get_detected_status_text\<close> answers
  \<^verbatim>\<open>new failure\<close> when the mode contains \<^verbatim>\<open>change\<close> and the previous result is
  known and is not FAILURE; failing that, it answers \<^verbatim>\<open>new failure\<close> when the mode
  contains \<^verbatim>\<open>problem\<close> and the previous result is known, is not zero and is not
  FAILURE; in every other case it answers \<^verbatim>\<open>failed build\<close>. The rule for
  \<^verbatim>\<open>change\<close> is tried first and the first rule that applies decides.
\<close>

theorem C2_failure_status_text:
  "get_detected_status_text R mode (Some (FAILURE R)) previous_results =
     (if ''change'' \<in> set mode \<and> (\<exists>n. previous_results = Some n \<and> n \<noteq> FAILURE R)
      then ''new failure''
      else if ''problem'' \<in> set mode
              \<and> (\<exists>n. previous_results = Some n \<and> n \<noteq> 0 \<and> n \<noteq> FAILURE R)
      then ''new failure''
      else ''failed build'')"
  by (cases previous_results) (auto simp: get_detected_status_text_def truthy_int_def)

theorem C2_failure_status_text_witness:
  "get_detected_status_text buildbot_results [''problem''] (Some 2) (Some 1) = ''new failure''
   \<and> get_detected_status_text buildbot_results [''problem''] (Some 2) (Some 0) = ''failed build''
   \<and> get_detected_status_text buildbot_results [''change''] (Some 2) (Some 0) = ''new failure''
   \<and> get_detected_status_text buildbot_results [''change'', ''problem''] (Some 2) (Some 2)
       = ''failed build''
   \<and> get_detected_status_text buildbot_results [''change'', ''problem''] (Some 2) None
       = ''failed build''"
  using C2_failure_status_text [of buildbot_results "[''problem'']" "Some 1"]
        C2_failure_status_text [of buildbot_results "[''problem'']" "Some 0"]
        C2_failure_status_text [of buildbot_results "[''change'']" "Some 0"]
        C2_failure_status_text [of buildbot_results "[''change'', ''problem'']" "Some 2"]
        C2_failure_status_text [of buildbot_results "[''change'', ''problem'']" "None"]
  by (simp add: buildbot_results_def)

text \<open>
  Claim C4. With the suffix being a colon, a space and the state string of the build
  when that string is non-empty, and nothing otherwise, \<open>get_message_summary_text\<close>
  answers \<^verbatim>\<open>Build succeeded!\<close> for SUCCESS, \<^verbatim>\<open>Build Had Warnings\<close> and the suffix for
  WARNINGS, \<^verbatim>\<open>Build was cancelled\<close> without the suffix for CANCELLED, and
  \<^verbatim>\<open>BUILD FAILED\<close> and the suffix for every other result, FAILURE and EXCEPTION among
  them. The five result codes are taken to be different from one another.
\<close>

theorem C4_summary_text:
  assumes "distinct [SUCCESS R, WARNINGS R, FAILURE R, EXCEPTION R, CANCELLED R]"
  shows "get_message_summary_text R build results =
     (let suffix = (case build_state_string build of
                      None \<Rightarrow> [] | Some s \<Rightarrow> if s = [] then [] else '': '' @ s)
      in if results = Some (SUCCESS R) then ''Build succeeded!''
         else if results = Some (WARNINGS R) then ''Build Had Warnings'' @ suffix
         else if results = Some (CANCELLED R) then ''Build was cancelled''
         else ''BUILD FAILED'' @ suffix)
     \<and> get_message_summary_text R build (Some (FAILURE R)) =
         ''BUILD FAILED'' @ (case build_state_string build of
                      None \<Rightarrow> [] | Some s \<Rightarrow> if s = [] then [] else '': '' @ s)
     \<and> get_message_summary_text R build (Some (EXCEPTION R)) =
         ''BUILD FAILED'' @ (case build_state_string build of
                      None \<Rightarrow> [] | Some s \<Rightarrow> if s = [] then [] else '': '' @ s)
     \<and> get_message_summary_text R build (Some (CANCELLED R)) = ''Build was cancelled''"
  using assms
  by (cases "build_state_string build")
     (auto simp: get_message_summary_text_def truthy_str_def Let_def)

theorem C4_summary_text_witness:
  "distinct [SUCCESS buildbot_results, WARNINGS buildbot_results, FAILURE buildbot_results,
             EXCEPTION buildbot_results, CANCELLED buildbot_results]
   \<and> get_message_summary_text buildbot_results example_build (Some 2) = ''BUILD FAILED: compiling''
   \<and> get_message_summary_text buildbot_results example_build (Some 6) = ''Build was cancelled''"
proof -
  have d: "distinct [SUCCESS buildbot_results, WARNINGS buildbot_results,
                     FAILURE buildbot_results, EXCEPTION buildbot_results,
                     CANCELLED buildbot_results]"
    by (simp add: buildbot_results_def)
  from C4_summary_text [OF d, of example_build "Some 2"] d show ?thesis
    by (simp add: buildbot_results_def example_build_def)
qed

lemma status_text_cases:
  "get_detected_status_text R mode results previous_results
     \<in> {''new failure'', ''failed build'', ''problem in the build'', ''restored build'',
        ''passing build'', ''build exception'', statusToString R results @ '' build''}"
  by (simp add: get_detected_status_text_def)

lemma status_text_nonempty:
  "get_detected_status_text R mode results previous_results \<noteq> []"
  by (simp add: get_detected_status_text_def)

lemma status_text_other:
  "r \<notin> {FAILURE R, WARNINGS R, SUCCESS R, EXCEPTION R} \<Longrightarrow>
   get_detected_status_text R mode (Some r) previous_results = statusToString R (Some r) @ '' build''"
  by (simp add: get_detected_status_text_def)

lemma status_text_handled:
  "r \<in> {FAILURE R, WARNINGS R, SUCCESS R, EXCEPTION R} \<Longrightarrow>
   get_detected_status_text R mode (Some r) previous_results
     \<in> {''new failure'', ''failed build'', ''problem in the build'', ''restored build'',
        ''passing build'', ''build exception''}"
  by (auto simp: get_detected_status_text_def)

lemma status_text_image:
  "(\<lambda>(m, r, p). get_detected_status_text R m (Some r) p)
     ` (UNIV \<times> ({FAILURE R, WARNINGS R, SUCCESS R, EXCEPTION R} \<union> others) \<times> UNIV)
   \<subseteq> {''new failure'', ''failed build'', ''problem in the build'', ''restored build'',
       ''passing build'', ''build exception''}
     \<union> (\<lambda>r. statusToString R (Some r) @ '' build'') ` others"
proof
  fix t
  assume "t \<in> (\<lambda>(m, r, p). get_detected_status_text R m (Some r) p)
     ` (UNIV \<times> ({FAILURE R, WARNINGS R, SUCCESS R, EXCEPTION R} \<union> others) \<times> UNIV)"
  then obtain m r p where t: "t = get_detected_status_text R m (Some r) p"
    and r: "r \<in> {FAILURE R, WARNINGS R, SUCCESS R, EXCEPTION R} \<union> others"
    by auto
  show "t \<in> {''new failure'', ''failed build'', ''problem in the build'', ''restored build'',
       ''passing build'', ''build exception''}
     \<union> (\<lambda>r. statusToString R (Some r) @ '' build'') ` others"
  proof (cases "r \<in> {FAILURE R, WARNINGS R, SUCCESS R, EXCEPTION R}")
    case True
    from status_text_handled [OF True, of m p] t show ?thesis by blast
  next
    case False
    with r have "r \<in> others" by blast
    moreover from status_text_other [OF False, of m p] t
    have "t = statusToString R (Some r) @ '' build''" by simp
    ultimately show ?thesis by blast
  qed
qed

lemma status_text_count:
  assumes "finite others"
  shows "finite ((\<lambda>(m, r, p). get_detected_status_text R m (Some r) p)
               ` (UNIV \<times> ({FAILURE R, WARNINGS R, SUCCESS R, EXCEPTION R} \<union> others) \<times> UNIV))
       \<and> card ((\<lambda>(m, r, p). get_detected_status_text R m (Some r) p)
               ` (UNIV \<times> ({FAILURE R, WARNINGS R, SUCCESS R, EXCEPTION R} \<union> others) \<times> UNIV))
         \<le> 6 + card others"
proof -
  let ?six = "{''new failure'', ''failed build'', ''problem in the build'', ''restored build'',
        ''passing build'', ''build exception''}"
  let ?gen = "(\<lambda>r. statusToString R (Some r) @ '' build'') ` others"
  let ?img = "(\<lambda>(m, r, p). get_detected_status_text R m (Some r) p)
               ` (UNIV \<times> ({FAILURE R, WARNINGS R, SUCCESS R, EXCEPTION R} \<union> others) \<times> UNIV)"
  have sub: "?img \<subseteq> ?six \<union> ?gen" by (rule status_text_image)
  have fin: "finite (?six \<union> ?gen)" using assms by simp
  have f: "finite ?img" by (rule finite_subset [OF sub fin])
  have "card ?img \<le> card (?six \<union> ?gen)" by (rule card_mono [OF fin sub])
  also have "\<dots> \<le> card ?six + card ?gen" by (rule card_Un_le)
  also have "card ?six = 6" by simp
  also have "card ?gen \<le> card others" by (rule card_image_le [OF assms])
  finally have "card ?img \<le> 6 + card others" by simp
  with f show ?thesis by blast
qed

lemma status_text_build_codes:
  assumes "r \<in> {0, 1, 2, 3, 4, 5, 6}"
  shows "get_detected_status_text buildbot_results mode (Some r) previous_results
           \<in> {''new failure'', ''failed build'', ''problem in the build'', ''restored build'',
              ''passing build'', ''build exception'', ''skipped build'', ''retry build'',
              ''cancelled build''}"
proof -
  from assms consider "r = 0" | "r = 1" | "r = 2" | "r = 3" | "r = 4" | "r = 5" | "r = 6"
    by auto
  then show ?thesis
  proof cases
    case 1 then show ?thesis
      by (simp add: get_detected_status_text_def buildbot_results_def)
  next
    case 2 then show ?thesis
      by (simp add: get_detected_status_text_def buildbot_results_def)
  next
    case 3 then show ?thesis
      by (simp add: get_detected_status_text_def buildbot_results_def)
  next
    case 4 then show ?thesis
      by (simp add: get_detected_status_text_def buildbot_results_def Results_def)
  next
    case 5 then show ?thesis
      by (simp add: get_detected_status_text_def buildbot_results_def)
  next
    case 6 then show ?thesis
      by (simp add: get_detected_status_text_def buildbot_results_def Results_def)
  next
    case 7 then show ?thesis
      by (simp add: get_detected_status_text_def buildbot_results_def Results_def)
  qed
qed

text \<open>
  Claim C6, as it stands, says that \<open>get_detected_status_text\<close> answers one of nine
  fixed strings whatever the result. A result that is none of FAILURE, WARNINGS, SUCCESS
  and EXCEPTION is answered with its display name: with the display names modelled
  above, the code 7, which is no result code of a build, gives
  \<^verbatim>\<open>Invalid status build\<close>, and the result \<^verbatim>\<open>None\<close> of an unfinished build gives
  \<^verbatim>\<open>not finished build\<close>; neither is among the nine.
\<close>

theorem C6_status_text_counterexample:
  "get_detected_status_text buildbot_results [] (Some 7) None = ''Invalid status build''
   \<and> ''Invalid status build''
       \<notin> {''new failure'', ''failed build'', ''problem in the build'', ''restored build'',
          ''passing build'', ''build exception'', ''skipped build'', ''retry build'',
          ''cancelled build''}
   \<and> get_detected_status_text buildbot_results [] None None = ''not finished build''
   \<and> ''not finished build''
       \<notin> {''new failure'', ''failed build'', ''problem in the build'', ''restored build'',
          ''passing build'', ''build exception'', ''skipped build'', ''retry build'',
          ''cancelled build''}"
  by (simp add: get_detected_status_text_def buildbot_results_def Results_def)

text \<open>
  Claim C6, amended. Whatever the mode, the result and the previous result,
  \<open>get_detected_status_text\<close> answers one of the six fixed phrases of section 4.1
  of the specification, or the display name of the result followed by
  \<^verbatim>\<open>build\<close>; the answer is never empty. For SUCCESS it is \<^verbatim>\<open>restored build\<close> when
  the mode contains \<^verbatim>\<open>change\<close> and the previous result is known and differs, and
  \<^verbatim>\<open>passing build\<close> otherwise; for WARNINGS it is \<^verbatim>\<open>problem in the build\<close> and for
  EXCEPTION \<^verbatim>\<open>build exception\<close>. Over the four codes with a phrase of their own and
  any finite set of further codes, the answers lie in the six phrases and the display
  names of the further codes, a finite set of at most six members and one for each
  further code. For the seven result codes of a build, with the display names
  modelled above, the answer is one of nine fixed strings. The four codes are taken to
  be different from one another.
\<close>

theorem C6_status_text_range:
  assumes "distinct [FAILURE R, WARNINGS R, SUCCESS R, EXCEPTION R]"
  shows "get_detected_status_text R mode results previous_results
           \<in> {''new failure'', ''failed build'', ''problem in the build'', ''restored build'',
              ''passing build'', ''build exception'', statusToString R results @ '' build''}
       \<and> get_detected_status_text R mode results previous_results \<noteq> []
       \<and> get_detected_status_text R mode (Some (SUCCESS R)) previous_results =
           (if ''change'' \<in> set mode \<and> (\<exists>n. previous_results = Some n \<and> n \<noteq> SUCCESS R)
            then ''restored build'' else ''passing build'')
       \<and> get_detected_status_text R mode (Some (WARNINGS R)) previous_results
           = ''problem in the build''
       \<and> get_detected_status_text R mode (Some (EXCEPTION R)) previous_results
           = ''build exception''
       \<and> (\<forall>others. finite others \<longrightarrow>
            (\<lambda>(m, r, p). get_detected_status_text R m (Some r) p)
              ` (UNIV \<times> ({FAILURE R, WARNINGS R, SUCCESS R, EXCEPTION R} \<union> others) \<times> UNIV)
            \<subseteq> {''new failure'', ''failed build'', ''problem in the build'',
                ''restored build'', ''passing build'', ''build exception''}
              \<union> (\<lambda>r. statusToString R (Some r) @ '' build'') ` others
            \<and> finite ((\<lambda>(m, r, p). get_detected_status_text R m (Some r) p)
                  ` (UNIV \<times> ({FAILURE R, WARNINGS R, SUCCESS R, EXCEPTION R} \<union> others) \<times> UNIV))
            \<and> card ((\<lambda>(m, r, p). get_detected_status_text R m (Some r) p)
                  ` (UNIV \<times> ({FAILURE R, WARNINGS R, SUCCESS R, EXCEPTION R} \<union> others) \<times> UNIV))
              \<le> 6 + card others)
       \<and> (\<forall>r \<in> {0, 1, 2, 3, 4, 5, 6}.
            get_detected_status_text buildbot_results mode (Some r) previous_results
              \<in> {''new failure'', ''failed build'', ''problem in the build'', ''restored build'',
                 ''passing build'', ''build exception'', ''skipped build'', ''retry build'',
                 ''cancelled build''})"
proof -
  have s: "get_detected_status_text R mode (Some (SUCCESS R)) previous_results =
           (if ''change'' \<in> set mode \<and> (\<exists>n. previous_results = Some n \<and> n \<noteq> SUCCESS R)
            then ''restored build'' else ''passing build'')"
    using assms by (cases previous_results) (auto simp: get_detected_status_text_def)
  have w: "get_detected_status_text R mode (Some (WARNINGS R)) previous_results
           = ''problem in the build''"
    using assms by (simp add: get_detected_status_text_def)
  have e: "get_detected_status_text R mode (Some (EXCEPTION R)) previous_results
           = ''build exception''"
    using assms by (simp add: get_detected_status_text_def)
  have n: "\<forall>others. finite others \<longrightarrow>
            (\<lambda>(m, r, p). get_detected_status_text R m (Some r) p)
              ` (UNIV \<times> ({FAILURE R, WARNINGS R, SUCCESS R, EXCEPTION R} \<union> others) \<times> UNIV)
            \<subseteq> {''new failure'', ''failed build'', ''problem in the build'',
                ''restored build'', ''passing build'', ''build exception''}
              \<union> (\<lambda>r. statusToString R (Some r) @ '' build'') ` others
            \<and> finite ((\<lambda>(m, r, p). get_detected_status_text R m (Some r) p)
                  ` (UNIV \<times> ({FAILURE R, WARNINGS R, SUCCESS R, EXCEPTION R} \<union> others) \<times> UNIV))
            \<and> card ((\<lambda>(m, r, p). get_detected_status_text R m (Some r) p)
                  ` (UNIV \<times> ({FAILURE R, WARNINGS R, SUCCESS R, EXCEPTION R} \<union> others) \<times> UNIV))
              \<le> 6 + card others"
    using status_text_image [of R] status_text_count [of _ R] by blast
  have b: "\<forall>r \<in> {0, 1, 2, 3, 4, 5, 6}.
            get_detected_status_text buildbot_results mode (Some r) previous_results
              \<in> {''new failure'', ''failed build'', ''problem in the build'', ''restored build'',
                 ''passing build'', ''build exception'', ''skipped build'', ''retry build'',
                 ''cancelled build''}"
    using status_text_build_codes by blast
  note c = status_text_cases [of R mode results previous_results]
  note ne = status_text_nonempty [of R mode results previous_results]
  show ?thesis
    by (rule conjI [OF c conjI [OF ne conjI [OF s conjI [OF w conjI [OF e conjI [OF n b]]]]]])
qed

theorem C6_status_text_range_witness:
  "distinct [FAILURE buildbot_results, WARNINGS buildbot_results, SUCCESS buildbot_results,
             EXCEPTION buildbot_results]
   \<and> get_detected_status_text buildbot_results [''change''] (Some 0) (Some 2) = ''restored build''
   \<and> get_detected_status_text buildbot_results [''change''] (Some 0) (Some 0) = ''passing build''
   \<and> get_detected_status_text buildbot_results [''change''] (Some 1) (Some 0) = ''problem in the build''
   \<and> get_detected_status_text buildbot_results [''change''] (Some 4) (Some 0) = ''build exception''
   \<and> finite {3, 5, 6 :: int}
   \<and> card ((\<lambda>(m, r, p). get_detected_status_text buildbot_results m (Some r) p)
            ` (UNIV \<times> ({2, 1, 0, 4} \<union> {3, 5, 6}) \<times> UNIV)) \<le> 9
   \<and> (6 :: int) \<in> {0, 1, 2, 3, 4, 5, 6}
   \<and> get_detected_status_text buildbot_results [''change''] (Some 6) (Some 0)
       \<in> {''new failure'', ''failed build'', ''problem in the build'', ''restored build'',
          ''passing build'', ''build exception'', ''skipped build'', ''retry build'',
          ''cancelled build''}"
proof -
  have d: "distinct [FAILURE buildbot_results, WARNINGS buildbot_results,
                     SUCCESS buildbot_results, EXCEPTION buildbot_results]"
    by (simp add: buildbot_results_def)
  have f: "finite {3, 5, 6 :: int}" and c: "card {3, 5, 6 :: int} = 3" by simp_all
  have m: "(6 :: int) \<in> {0, 1, 2, 3, 4, 5, 6}" by simp
  from C6_status_text_range [OF d, of "[''change'']" "Some 0" "Some 2"]
  have a: "get_detected_status_text buildbot_results [''change''] (Some 0) (Some 2) = ''restored build''"
    by (simp add: buildbot_results_def)
  note T = C6_status_text_range [OF d, of "[''change'']" "Some 0" "Some 0"]
  from T
  have b: "get_detected_status_text buildbot_results [''change''] (Some 0) (Some 0) = ''passing build''"
   and w: "get_detected_status_text buildbot_results [''change''] (Some 1) (Some 0) = ''problem in the build''"
   and e: "get_detected_status_text buildbot_results [''change''] (Some 4) (Some 0) = ''build exception''"
    by (simp_all add: buildbot_results_def)
  from T have n: "\<forall>others. finite others \<longrightarrow>
            card ((\<lambda>(m, r, p). get_detected_status_text buildbot_results m (Some r) p)
                  ` (UNIV \<times> ({FAILURE buildbot_results, WARNINGS buildbot_results, SUCCESS buildbot_results, EXCEPTION buildbot_results} \<union> others) \<times> UNIV))
            \<le> 6 + card others"
    by blast
  from n f have "card ((\<lambda>(m, r, p). get_detected_status_text buildbot_results m (Some r) p)
                  ` (UNIV \<times> ({FAILURE buildbot_results, WARNINGS buildbot_results, SUCCESS buildbot_results, EXCEPTION buildbot_results} \<union> {3, 5, 6}) \<times> UNIV))
            \<le> 6 + card {3, 5, 6 :: int}" by blast
  then have k: "card ((\<lambda>(m, r, p). get_detected_status_text buildbot_results m (Some r) p)
            ` (UNIV \<times> ({2, 1, 0, 4} \<union> {3, 5, 6}) \<times> UNIV)) \<le> 9"
    unfolding c by (simp add: buildbot_results_def)
  from T have "\<forall>r \<in> {0, 1, 2, 3, 4, 5, 6}.
            get_detected_status_text buildbot_results [''change''] (Some r) (Some 0)
              \<in> {''new failure'', ''failed build'', ''problem in the build'', ''restored build'',
                 ''passing build'', ''build exception'', ''skipped build'', ''retry build'',
                 ''cancelled build''}"
    by (elim conjE)
  from this m have g: "get_detected_status_text buildbot_results [''change''] (Some 6) (Some 0)
       \<in> {''new failure'', ''failed build'', ''problem in the build'', ''restored build'',
          ''passing build'', ''build exception'', ''skipped build'', ''retry build'',
          ''cancelled build''}"
    by (rule bspec)
  show ?thesis
    by (rule conjI [OF d conjI [OF a conjI [OF b conjI [OF w conjI [OF e conjI [OF f
              conjI [OF k conjI [OF m g]]]]]]]])
qed

section \<open>Source stamps and projects\<close>

lemma source_stamp_loop_concat:
  "source_stamp_loop t source_stamps = t @ concat (map spec_source_stamp_line source_stamps)"
proof (induction source_stamps arbitrary: t)
  case Nil
  then show ?case by simp
next
  case (Cons ss source_stamps)
  have line: "''Build Source Stamp''
      @ (if truthy_str (codebase ss) then '' '' @ [CHR 0x27] @ the (codebase ss) @ [CHR 0x27] else [])
      @ '': ''
      @ ((if patch ss \<noteq> None
          then ((if truthy_str (revision ss)
                then (if truthy_str (branch ss) then [] @ ''[branch '' @ the (branch ss) @ ''] '' else []) @ the (revision ss)
                else (if truthy_str (branch ss) then [] @ ''[branch '' @ the (branch ss) @ ''] '' else []) @ ''HEAD'')) @ '' (plus patch)''
          else (if truthy_str (revision ss)
                then (if truthy_str (branch ss) then [] @ ''[branch '' @ the (branch ss) @ ''] '' else []) @ the (revision ss)
                else (if truthy_str (branch ss) then [] @ ''[branch '' @ the (branch ss) @ ''] '' else []) @ ''HEAD'')))
      @ [CHR 0x0A] = spec_source_stamp_line ss"
    by (cases "codebase ss"; cases "branch ss"; cases "revision ss"; cases "patch ss")
       (simp_all add: spec_source_stamp_line_def truthy_str_def)
  show ?case
    using line by (simp add: Cons.IH Let_def)
qed

lemma spec_source_stamp_line_last: "last (spec_source_stamp_line ss) = CHR 0x0A"
  by (simp add: spec_source_stamp_line_def)

text \<open>
  Claim C7. \<open>get_message_source_stamp_text\<close> writes one line for each source
  stamp, in the order of the sequence, and each line is the line the specification
  words: the heading, the quoted codebase when non-empty, a colon, the bracketed branch
  when non-empty, the revision or \<^verbatim>\<open>HEAD\<close>, the note of a patch when present. Every
  line, the last one too, ends with a newline, and no stamps give the empty text.
\<close>

theorem C7_source_stamp_text:
  "get_message_source_stamp_text source_stamps = concat (map spec_source_stamp_line source_stamps)
   \<and> get_message_source_stamp_text [] = []
   \<and> (\<forall>ss \<in> set source_stamps. spec_source_stamp_line ss \<noteq> []
                                 \<and> last (spec_source_stamp_line ss) = CHR 0x0A)"
  by (simp add: get_message_source_stamp_text_def source_stamp_loop_concat
                spec_source_stamp_line_last)
     (simp add: spec_source_stamp_line_def)

theorem C7_source_stamp_text_witness:
  "get_message_source_stamp_text [stamp ''A''] = ''Build Source Stamp: [branch main] abc123'' @ [CHR 0x0A]
   \<and> get_message_source_stamp_text
        [\<lparr>branch = None, revision = None, patch = Some ''diff'', codebase = Some ''lib'', project = None\<rparr>,
         stamp ''A'']
       = ''Build Source Stamp '' @ [CHR 0x27] @ ''lib'' @ [CHR 0x27] @ '': HEAD (plus patch)'' @ [CHR 0x0A]
         @ ''Build Source Stamp: [branch main] abc123'' @ [CHR 0x0A]"
  using C7_source_stamp_text [of "[stamp ''A'']"]
        C7_source_stamp_text [of "[\<lparr>branch = None, revision = None, patch = Some ''diff'', codebase = Some ''lib'', project = None\<rparr>, stamp ''A'']"]
  by (simp add: spec_source_stamp_line_def stamp_def)

lemma projects_loop_set:
  "projects_loop projects source_stamps =
     projects \<union> {p. \<exists>ss \<in> set source_stamps. project ss = Some p \<and> p \<noteq> []}"
proof (induction source_stamps arbitrary: projects)
  case Nil
  then show ?case by simp
next
  case (Cons ss source_stamps)
  show ?case
    by (cases "project ss") (auto simp: Cons.IH truthy_str_def)
qed

lemma distinct_count_list: "distinct xs \<Longrightarrow> x \<in> set xs \<Longrightarrow> count_list xs x = 1"
  by (induction xs) auto

text \<open>
  Claim C8. \<open>get_projects_text\<close> joins with a comma and a space the non-empty
  project fields of the source stamps, each different project once; when no stamp has
  a non-empty project field the answer is the title of the master. The order of the
  projects is the order in which the set is enumerated, of which only this is assumed:
  the enumeration lists the members of the set, each once.
\<close>

theorem C8_projects_text:
  assumes "enumerates list_of {p. \<exists>ss \<in> set source_stamps. project ss = Some p \<and> p \<noteq> []}"
  shows "({p. \<exists>ss \<in> set source_stamps. project ss = Some p \<and> p \<noteq> []} = {} \<longrightarrow>
            get_projects_text list_of source_stamps master = config_title master)
       \<and> ({p. \<exists>ss \<in> set source_stamps. project ss = Some p \<and> p \<noteq> []} \<noteq> {} \<longrightarrow>
            (\<exists>xs. get_projects_text list_of source_stamps master = join '', '' xs
                  \<and> set xs = {p. \<exists>ss \<in> set source_stamps. project ss = Some p \<and> p \<noteq> []}
                  \<and> (\<forall>p \<in> set xs. count_list xs p = 1)))"
proof -
  define P where "P = {p. \<exists>ss \<in> set source_stamps. project ss = Some p \<and> p \<noteq> []}"
  have loop: "projects_loop {} source_stamps = P"
    by (simp add: projects_loop_set P_def)
  from assms have s: "set (list_of P) = P" and d: "distinct (list_of P)"
    by (simp_all add: enumerates_def P_def)
  have empty: "P = {} \<longrightarrow> get_projects_text list_of source_stamps master = config_title master"
    by (simp add: get_projects_text_def loop)
  have joined: "P \<noteq> {} \<longrightarrow>
                get_projects_text list_of source_stamps master = join '', '' (list_of P)"
    by (simp add: get_projects_text_def loop)
  have once: "\<forall>p \<in> set (list_of P). count_list (list_of P) p = 1"
    using d by (simp add: distinct_count_list)
  have nonempty: "P \<noteq> {} \<longrightarrow>
            (\<exists>xs. get_projects_text list_of source_stamps master = join '', '' xs
                  \<and> set xs = P \<and> (\<forall>p \<in> set xs. count_list xs p = 1))"
    using joined s once by blast
  from empty nonempty show ?thesis unfolding P_def by blast
qed

lemma example_projects:
  "{p. \<exists>ss \<in> set [stamp ''A'', stamp ''B'', stamp ''A'']. project ss = Some p \<and> p \<noteq> []} = {''A'', ''B''}"
  by (auto simp: stamp_def)

theorem C8_projects_text_witness:
  "enumerates example_list_of_set
     {p. \<exists>ss \<in> set [stamp ''A'', stamp ''B'', stamp ''A'']. project ss = Some p \<and> p \<noteq> []}
   \<and> enumerates example_list_of_set
     {p. \<exists>ss \<in> set ([] :: sourcestamp list). project ss = Some p \<and> p \<noteq> []}
   \<and> (\<exists>xs. get_projects_text example_list_of_set [stamp ''A'', stamp ''B'', stamp ''A'']
               example_master = join '', '' xs
             \<and> set xs = {''A'', ''B''} \<and> (\<forall>p \<in> set xs. count_list xs p = 1))
   \<and> get_projects_text example_list_of_set [stamp ''A'', stamp ''B'', stamp ''A''] example_master
       = ''B, A''
   \<and> get_projects_text example_list_of_set [] example_master = ''Buildbot''"
proof -
  have e1: "enumerates example_list_of_set
     {p. \<exists>ss \<in> set [stamp ''A'', stamp ''B'', stamp ''A'']. project ss = Some p \<and> p \<noteq> []}"
    unfolding example_projects by (auto simp: enumerates_def example_list_of_set_def)
  have e2: "enumerates example_list_of_set
     {p. \<exists>ss \<in> set ([] :: sourcestamp list). project ss = Some p \<and> p \<noteq> []}"
    by (simp add: enumerates_def example_list_of_set_def)
  from C8_projects_text [OF e2, of example_master]
  have b: "get_projects_text example_list_of_set [] example_master = ''Buildbot''"
    by (simp add: example_master_def)
  from C8_projects_text [OF e1, of example_master]
  have x: "\<exists>xs. get_projects_text example_list_of_set [stamp ''A'', stamp ''B'', stamp ''A'']
               example_master = join '', '' xs
             \<and> set xs = {''A'', ''B''} \<and> (\<forall>p \<in> set xs. count_list xs p = 1)"
    unfolding example_projects by simp
  have a: "get_projects_text example_list_of_set [stamp ''A'', stamp ''B'', stamp ''A'']
             example_master = ''B, A''"
    by (simp add: get_projects_text_def example_list_of_set_def stamp_def truthy_str_def)
  from e1 e2 x a b show ?thesis by blast
qed

section \<open>Templates: loading and strictness\<close>

lemmas example_simps =
  example_env_def example_compile_def example_files_def strip_def data_node_def
  example_master_def example_worker_def

lemma getTemplate_file:
  "\<not> truthy_str content \<Longrightarrow>
   getTemplate E cls filename dirname content =
     get_template E (case dirname of None \<Rightarrow> bundled_templates E | Some d \<Rightarrow> d) StrictUndefined
       (case filename of None \<Rightarrow> class_template_filename cls | Some f \<Rightarrow> f)"
  by (simp add: getTemplate_def)

lemma getTemplate_conflict:
  "truthy_str content \<Longrightarrow> truthy_str filename \<or> truthy_str dirname \<Longrightarrow>
   getTemplate E cls filename dirname content =
     Inl (ConfigErrors ''Only one of template or template path can be given'')"
  by (simp add: getTemplate_def config_error_def)

lemma get_template_no_config_error:
  "get_template E dirname u filename \<noteq> Inl (ConfigErrors msg)"
  by (simp add: get_template_def split: option.splits)

lemma render_nodes_lenient: "\<exists>s. render_nodes str Undefined ns ctx = Inr s"
proof (induction ns)
  case Nil
  then show ?case by simp
next
  case (Cons n ns)
  then obtain s where "render_nodes str Undefined ns ctx = Inr s" by blast
  then show ?case by (cases n) (simp_all split: option.splits)
qed

lemma render_nodes_strict:
  "Name k \<in> set ns \<Longrightarrow> ctx k = None \<Longrightarrow>
   \<exists>k'. render_nodes str StrictUndefined ns ctx = Inl (UndefinedError k')"
proof (induction ns)
  case Nil
  then show ?case by simp
next
  case (Cons n ns)
  show ?case
  proof (cases "n = Name k")
    case True
    with Cons.prems show ?thesis by simp
  next
    case False
    with Cons obtain k' where "render_nodes str StrictUndefined ns ctx = Inl (UndefinedError k')"
      by auto
    then show ?thesis by (cases n) (simp_all split: option.splits)
  qed
qed

lemma inline_template_never_raises:
  assumes "truthy_str content" and "getTemplate E cls filename dirname content = Inr t"
  shows "\<exists>s. render E t ctx = Inr s"
proof -
  from assms have "jinja2_Template E (the content) = Inr t"
    by (auto simp: getTemplate_def config_error_def split: if_splits)
  then have "undefined_kind t = Undefined"
    by (auto simp: jinja2_Template_def split: option.splits)
  then show ?thesis using render_nodes_lenient by (simp add: render_def)
qed

lemma file_template_strict:
  assumes "\<not> truthy_str content" and "getTemplate E cls filename dirname content = Inr t"
    and "Name k \<in> set (nodes t)" and "ctx k = None"
  shows "\<exists>k'. render E t ctx = Inl (UndefinedError k')"
proof -
  from assms(1,2) have "undefined_kind t = StrictUndefined"
    by (auto simp: getTemplate_file get_template_def split: option.splits)
  with assms(3,4) show ?thesis using render_nodes_strict by (simp add: render_def)
qed

lemma update_empty: "update d Map.empty = d"
  by (simp add: update_def)

text \<open>
  Claim C1. Rendering a template over a context that lacks a name the template prints
  should raise. The constructor compiles an inline template with
  \<^verbatim>\<open>jinja2.Template\<close>, in the default environment: the formatter built from the
  inline text renders the unbound name as the empty string and returns a message with
  an empty body, while the formatter built from a file of the same text raises
  \<^verbatim>\<open>UndefinedError\<close>.
\<close>

theorem C1_inline_template_renders_missing_key_empty:
  "init example_env MessageFormatterMissingWorker default_buildAdditionalContext
        None None (Some ''{{ status_detected }}'') None None None None = Inr inline_formatter
   \<and> formatMessageForMissingWorker example_env inline_formatter example_master example_worker
       = Inr [''body'' \<mapsto> [], ''type'' \<mapsto> ''plain'']
   \<and> init example_env MessageFormatterMissingWorker default_buildAdditionalContext
        None (Some ''subject.txt'') None None None None None = Inr file_formatter
   \<and> formatMessageForMissingWorker example_env file_formatter example_master example_worker
       = Inl (UndefinedError ''status_detected'')"
proof -
  have a: "init example_env MessageFormatterMissingWorker default_buildAdditionalContext
        None None (Some ''{{ status_detected }}'') None None None None = Inr inline_formatter"
    by (simp add: init_def getTemplate_def truthy_str_def jinja2_Template_def
          inline_formatter_def example_simps)
  have b: "formatMessageForMissingWorker example_env inline_formatter example_master
             example_worker = Inr [''body'' \<mapsto> [], ''type'' \<mapsto> ''plain'']"
    by (simp add: formatMessageForMissingWorker_def inline_formatter_def update_empty
          default_buildAdditionalContext_def renderMessage_def render_def
          missing_worker_context_def)
  have c: "init example_env MessageFormatterMissingWorker default_buildAdditionalContext
        None (Some ''subject.txt'') None None None None None = Inr file_formatter"
    by (simp add: init_def getTemplate_def truthy_str_def get_template_def
          file_formatter_def example_simps)
  have d: "formatMessageForMissingWorker example_env file_formatter example_master
             example_worker = Inl (UndefinedError ''status_detected'')"
    by (simp add: formatMessageForMissingWorker_def file_formatter_def update_empty
          default_buildAdditionalContext_def renderMessage_def render_def
          missing_worker_context_def)
  from a b c d show ?thesis by blast
qed

lemma init_conflict:
  "truthy_str template \<Longrightarrow> truthy_str template_filename \<or> truthy_str template_dir \<Longrightarrow>
   init E cls hook template_dir template_filename template subject_filename subject
        template_type ctx =
     Inl (ConfigErrors ''Only one of template or template path can be given'')"
  by (simp add: init_def getTemplate_conflict)

text \<open>
  Claim C3. \<open>getTemplate\<close> fails with a configuration error when non-empty inline
  content comes together with a non-empty file name or directory, and so does the
  constructor, so that no formatter exists to render with. Without inline content the
  directory defaults to the bundled one and the file name to that of the class, the
  template is loaded from there, and a file that the directory does not hold gives the
  error \<^verbatim>\<open>TemplateNotFound\<close>.
\<close>

theorem C3_getTemplate_errors_and_defaults:
  "(truthy_str content \<and> (truthy_str filename \<or> truthy_str dirname) \<longrightarrow>
      getTemplate E cls filename dirname content =
        Inl (ConfigErrors ''Only one of template or template path can be given'')
      \<and> init E cls hook dirname filename content subject_filename subject template_type ctx =
        Inl (ConfigErrors ''Only one of template or template path can be given''))
   \<and> (\<not> truthy_str content \<longrightarrow>
      getTemplate E cls filename dirname content =
        get_template E (case dirname of None \<Rightarrow> bundled_templates E | Some d \<Rightarrow> d)
          StrictUndefined
          (case filename of None \<Rightarrow> class_template_filename cls | Some f \<Rightarrow> f))
   \<and> (\<not> truthy_str content \<longrightarrow>
      template_files E (case dirname of None \<Rightarrow> bundled_templates E | Some d \<Rightarrow> d)
        (case filename of None \<Rightarrow> class_template_filename cls | Some f \<Rightarrow> f) = None \<longrightarrow>
      getTemplate E cls filename dirname content =
        Inl (TemplateNotFound
               (case filename of None \<Rightarrow> class_template_filename cls | Some f \<Rightarrow> f)))"
proof -
  have nf: "\<not> truthy_str content \<longrightarrow>
      template_files E (case dirname of None \<Rightarrow> bundled_templates E | Some d \<Rightarrow> d)
        (case filename of None \<Rightarrow> class_template_filename cls | Some f \<Rightarrow> f) = None \<longrightarrow>
      getTemplate E cls filename dirname content =
        Inl (TemplateNotFound
               (case filename of None \<Rightarrow> class_template_filename cls | Some f \<Rightarrow> f))"
    by (simp add: getTemplate_file get_template_def)
  show ?thesis
    using nf getTemplate_conflict [of content filename dirname E cls]
      init_conflict [of content filename dirname E cls hook subject_filename subject
                        template_type ctx]
      getTemplate_file [of content E cls filename dirname]
    by blast
qed

theorem C3_getTemplate_errors_and_defaults_witness:
  "getTemplate example_env MessageFormatter (Some ''subject.txt'') None (Some ''{{ summary }}'')
     = Inl (ConfigErrors ''Only one of template or template path can be given'')
   \<and> getTemplate example_env MessageFormatter None (Some ''/etc/templates'') (Some ''{{ summary }}'')
     = Inl (ConfigErrors ''Only one of template or template path can be given'')
   \<and> getTemplate example_env MessageFormatterMissingWorker None None None
     = Inr \<lparr>nodes = [Name ''buildbot_title'', TemplateData '' lost a worker''],
            undefined_kind = StrictUndefined\<rparr>
   \<and> getTemplate example_env MessageFormatter (Some ''absent.txt'') None None
     = Inl (TemplateNotFound ''absent.txt'')"
proof -
  have t: "truthy_str (Some ''{{ summary }}'')" "truthy_str (Some ''subject.txt'')"
          "truthy_str (Some ''/etc/templates'')" "\<not> truthy_str None"
    by (simp_all add: truthy_str_def)
  have absent: "template_files example_env
        (case None of None \<Rightarrow> bundled_templates example_env | Some d \<Rightarrow> d)
        (case Some ''absent.txt'' of None \<Rightarrow> class_template_filename MessageFormatter
         | Some f \<Rightarrow> f) = None"
    by (simp add: example_env_def example_files_def)
  from C3_getTemplate_errors_and_defaults
         [of "Some ''{{ summary }}''" "Some ''subject.txt''" None example_env MessageFormatter] t
  have a: "getTemplate example_env MessageFormatter (Some ''subject.txt'') None
             (Some ''{{ summary }}'')
           = Inl (ConfigErrors ''Only one of template or template path can be given'')"
    by blast
  from C3_getTemplate_errors_and_defaults
         [of "Some ''{{ summary }}''" None "Some ''/etc/templates''" example_env MessageFormatter] t
  have b: "getTemplate example_env MessageFormatter None (Some ''/etc/templates'')
             (Some ''{{ summary }}'')
           = Inl (ConfigErrors ''Only one of template or template path can be given'')"
    by blast
  from C3_getTemplate_errors_and_defaults
         [of None None None example_env MessageFormatterMissingWorker] t
  have "getTemplate example_env MessageFormatterMissingWorker None None None
        = get_template example_env (bundled_templates example_env) StrictUndefined
            (class_template_filename MessageFormatterMissingWorker)"
    by simp
  then have c: "getTemplate example_env MessageFormatterMissingWorker None None None
     = Inr \<lparr>nodes = [Name ''buildbot_title'', TemplateData '' lost a worker''],
            undefined_kind = StrictUndefined\<rparr>"
    by (simp add: get_template_def example_simps)
  from C3_getTemplate_errors_and_defaults
         [of None "Some ''absent.txt''" None example_env MessageFormatter] t absent
  have "getTemplate example_env MessageFormatter (Some ''absent.txt'') None None
     = Inl (TemplateNotFound (case Some ''absent.txt'' of
              None \<Rightarrow> class_template_filename MessageFormatter | Some f \<Rightarrow> f))"
    by blast
  then have d: "getTemplate example_env MessageFormatter (Some ''absent.txt'') None None
     = Inl (TemplateNotFound ''absent.txt'')"
    by simp
  from a b c d show ?thesis by blast
qed

section \<open>Rendering a message\<close>

lemma renderMessage_Inr:
  assumes "renderMessage E self ctx = Inr m"
  shows "\<exists>body. render E (body_template self) ctx = Inr body
           \<and> m ''body'' = Some body
           \<and> m ''type'' = Some (self_template_type self)
           \<and> (case subject_template self of
                 None \<Rightarrow> m ''subject'' = None
               | Some st \<Rightarrow> (\<exists>subject. render E st ctx = Inr subject
                                      \<and> m ''subject'' = Some subject))
           \<and> dom m \<subseteq> {''body'', ''type'', ''subject''}"
  using assms
  by (auto simp: renderMessage_def Let_def split: sum.splits option.splits if_splits)

lemma renderMessage_returns:
  "(\<exists>m. renderMessage E self ctx = Inr m) \<longleftrightarrow>
     (\<exists>body. render E (body_template self) ctx = Inr body)
     \<and> (\<forall>st. subject_template self = Some st \<longrightarrow> (\<exists>subject. render E st ctx = Inr subject))"
  by (auto simp: renderMessage_def Let_def split: sum.splits option.splits)

text \<open>
  Claim C9. When \<open>renderMessage\<close> returns, the message holds the body, which is
  the body template rendered over the context, and the type tag of the formatter; it
  holds a subject, the subject template rendered over the same context, exactly when
  the formatter has a subject template; it holds nothing else. It returns exactly when
  the templates render. The type tag is the same for every context.
\<close>

theorem C9_renderMessage_result:
  "(\<forall>m. renderMessage E self ctx = Inr m \<longrightarrow>
      (\<exists>body. render E (body_template self) ctx = Inr body \<and> m ''body'' = Some body)
      \<and> m ''type'' = Some (self_template_type self)
      \<and> (subject_template self = None \<longrightarrow> dom m = {''body'', ''type''})
      \<and> (\<forall>st. subject_template self = Some st \<longrightarrow>
            dom m = {''body'', ''type'', ''subject''}
            \<and> (\<exists>subject. render E st ctx = Inr subject \<and> m ''subject'' = Some subject)))
   \<and> ((\<exists>m. renderMessage E self ctx = Inr m) \<longleftrightarrow>
        (\<exists>body. render E (body_template self) ctx = Inr body)
        \<and> (\<forall>st. subject_template self = Some st \<longrightarrow>
              (\<exists>subject. render E st ctx = Inr subject)))
   \<and> (\<forall>ctx' m m'. renderMessage E self ctx = Inr m \<and> renderMessage E self ctx' = Inr m' \<longrightarrow>
         m ''type'' = m' ''type'')"
proof -
  have a: "\<forall>m. renderMessage E self ctx = Inr m \<longrightarrow>
      (\<exists>body. render E (body_template self) ctx = Inr body \<and> m ''body'' = Some body)
      \<and> m ''type'' = Some (self_template_type self)
      \<and> (subject_template self = None \<longrightarrow> dom m = {''body'', ''type''})
      \<and> (\<forall>st. subject_template self = Some st \<longrightarrow>
            dom m = {''body'', ''type'', ''subject''}
            \<and> (\<exists>subject. render E st ctx = Inr subject \<and> m ''subject'' = Some subject))"
    by (auto simp: renderMessage_def Let_def split: sum.splits option.splits if_splits)
  have c: "\<forall>ctx' m m'. renderMessage E self ctx = Inr m \<and> renderMessage E self ctx' = Inr m'
             \<longrightarrow> m ''type'' = m' ''type''"
    using renderMessage_Inr by metis
  from a renderMessage_returns [of E self ctx] c show ?thesis by blast
qed



theorem C9_renderMessage_result_witness:
  "renderMessage example_env mail_formatter example_context =
     Inr [''body'' \<mapsto> ''Build succeeded! on runtests'', ''type'' \<mapsto> ''plain'',
          ''subject'' \<mapsto> ''passing build'']
   \<and> dom [''body'' \<mapsto> ''Build succeeded! on runtests'', ''type'' \<mapsto> ''plain'',
           ''subject'' \<mapsto> ''passing build''] = {''body'', ''type'', ''subject''}
   \<and> renderMessage example_env inline_formatter Map.empty
       = Inr [''body'' \<mapsto> [], ''type'' \<mapsto> ''plain'']
   \<and> dom [''body'' \<mapsto> [], ''type'' \<mapsto> ''plain''] = {''body'', ''type''}"
proof -
  have b1: "render example_env (body_template mail_formatter) example_context
              = Inr ''Build succeeded! on runtests''"
    by (simp add: render_def mail_formatter_def example_context_def example_env_def)
  have t1: "render example_env
              \<lparr>nodes = [Name ''status_detected''], undefined_kind = StrictUndefined\<rparr>
              example_context = Inr ''passing build''"
    by (simp add: render_def example_context_def example_env_def)
  have s1: "subject_template mail_formatter
              = Some \<lparr>nodes = [Name ''status_detected''], undefined_kind = StrictUndefined\<rparr>"
    by (simp add: mail_formatter_def)
  have y1: "self_template_type mail_formatter = ''plain''"
    by (simp add: mail_formatter_def)
  have r1: "renderMessage example_env mail_formatter example_context =
     Inr [''body'' \<mapsto> ''Build succeeded! on runtests'', ''type'' \<mapsto> ''plain'',
          ''subject'' \<mapsto> ''passing build'']"
    unfolding renderMessage_def Let_def b1 s1 y1 by (simp only: t1 sum.case option.case)
  have b2: "render example_env (body_template inline_formatter) Map.empty = Inr []"
    by (simp add: render_def inline_formatter_def example_env_def)
  have s2: "subject_template inline_formatter = None"
    by (simp add: inline_formatter_def)
  have y2: "self_template_type inline_formatter = ''plain''"
    by (simp add: inline_formatter_def)
  have r2: "renderMessage example_env inline_formatter Map.empty
       = Inr [''body'' \<mapsto> [], ''type'' \<mapsto> ''plain'']"
    unfolding renderMessage_def Let_def b2 s2 y2 by (simp only: sum.case option.case)
  note A = C9_renderMessage_result [of example_env mail_formatter example_context,
             THEN conjunct1, THEN spec, THEN mp, OF r1]
  note B = C9_renderMessage_result [of example_env inline_formatter Map.empty,
             THEN conjunct1, THEN spec, THEN mp, OF r2]
  from A have "\<forall>st. subject_template mail_formatter = Some st \<longrightarrow>
            dom [''body'' \<mapsto> ''Build succeeded! on runtests'', ''type'' \<mapsto> ''plain'',
                 ''subject'' \<mapsto> ''passing build''] = {''body'', ''type'', ''subject''}"
    by (elim conjE) (rule allI, rule impI, erule allE, erule (1) impE, erule conjunct1)
  with s1 have d1: "dom [''body'' \<mapsto> ''Build succeeded! on runtests'', ''type'' \<mapsto> ''plain'',
                 ''subject'' \<mapsto> ''passing build''] = {''body'', ''type'', ''subject''}"
    by blast
  from B have "subject_template inline_formatter = None \<longrightarrow>
                 dom [''body'' \<mapsto> [], ''type'' \<mapsto> ''plain''] = {''body'', ''type''}"
    by (elim conjE)
  with s2 have d2: "dom [''body'' \<mapsto> [], ''type'' \<mapsto> ''plain''] = {''body'', ''type''}"
    by blast
  show ?thesis
    by (rule conjI [OF r1 conjI [OF d1 conjI [OF r2 d2]]])
qed

section \<open>Empty inline content\<close>

text \<open>
  Claim C10, as it stands, also says that an empty subject argument of the constructor
  yields no subject template at all. The constructor tests the subject file name
  first: with the subject file \<^verbatim>\<open>subject.txt\<close> and the empty subject, the formatter
  has the subject template loaded from that file.
\<close>

theorem C10_empty_subject_counterexample:
  "map_sum id subject_template
     (init example_env MessageFormatter default_buildAdditionalContext
           None None None (Some ''subject.txt'') (Some []) None None)
   = Inr (Some \<lparr>nodes = [Name ''status_detected''], undefined_kind = StrictUndefined\<rparr>)"
  by (simp add: init_def getTemplate_def truthy_str_def get_template_def example_simps)

lemma getTemplate_empty_content:
  "getTemplate E cls filename dirname (Some []) =
     get_template E (case dirname of None \<Rightarrow> bundled_templates E | Some d \<Rightarrow> d)
       StrictUndefined (case filename of None \<Rightarrow> class_template_filename cls | Some f \<Rightarrow> f)"
  by (simp add: getTemplate_file truthy_str_def)

text \<open>
  Claim C10, amended. An empty inline template is treated by \<open>getTemplate\<close> as no
  inline template: no configuration error arises, whatever file name and directory
  come with it, and the template is loaded from the directory and file name with their
  defaults. An empty subject argument of the constructor yields no subject template
  when no subject file name, or an empty one, comes with it; with a subject file name
  the subject template is the one loaded from that file.
\<close>

theorem C10_empty_inline_content:
  "getTemplate E cls filename dirname (Some []) =
     get_template E (case dirname of None \<Rightarrow> bundled_templates E | Some d \<Rightarrow> d)
       StrictUndefined (case filename of None \<Rightarrow> class_template_filename cls | Some f \<Rightarrow> f)
   \<and> (\<forall>msg. getTemplate E cls filename dirname (Some []) \<noteq> Inl (ConfigErrors msg))
   \<and> (\<not> truthy_str subject_filename \<longrightarrow>
        (\<forall>self. init E cls hook template_dir template_filename template subject_filename
                      (Some []) template_type ctx = Inr self
               \<longrightarrow> subject_template self = None))
   \<and> (truthy_str subject_filename \<longrightarrow>
        (\<forall>self. init E cls hook template_dir template_filename template subject_filename
                      (Some []) template_type ctx = Inr self
               \<longrightarrow> (\<exists>t. subject_template self = Some t
                        \<and> get_template E
                            (case template_dir of None \<Rightarrow> bundled_templates E | Some d \<Rightarrow> d)
                            StrictUndefined (the subject_filename) = Inr t)))"
proof -
  have a: "\<forall>msg. getTemplate E cls filename dirname (Some []) \<noteq> Inl (ConfigErrors msg)"
    by (simp add: getTemplate_empty_content get_template_no_config_error)
  have b: "\<not> truthy_str subject_filename \<longrightarrow>
        (\<forall>self. init E cls hook template_dir template_filename template subject_filename
                      (Some []) template_type ctx = Inr self
               \<longrightarrow> subject_template self = None)"
    by (auto simp: init_def truthy_str_def split: sum.splits)
  have c: "truthy_str subject_filename \<longrightarrow>
        (\<forall>self. init E cls hook template_dir template_filename template subject_filename
                      (Some []) template_type ctx = Inr self
               \<longrightarrow> (\<exists>t. subject_template self = Some t
                        \<and> get_template E
                            (case template_dir of None \<Rightarrow> bundled_templates E | Some d \<Rightarrow> d)
                            StrictUndefined (the subject_filename) = Inr t))"
    by (cases subject_filename)
       (auto simp: init_def getTemplate_empty_content truthy_str_def split: sum.splits)
  from getTemplate_empty_content [of E cls filename dirname] a b c show ?thesis by blast
qed

theorem C10_empty_inline_content_witness:
  "getTemplate example_env MessageFormatter (Some ''subject.txt'') None (Some [])
     = Inr \<lparr>nodes = [Name ''status_detected''], undefined_kind = StrictUndefined\<rparr>
   \<and> \<not> truthy_str None
   \<and> init example_env MessageFormatterMissingWorker default_buildAdditionalContext
          None (Some ''subject.txt'') None None (Some []) None None = Inr file_formatter
   \<and> subject_template file_formatter = None"
proof -
  from C10_empty_inline_content [of example_env MessageFormatter "Some ''subject.txt''" None]
  have "getTemplate example_env MessageFormatter (Some ''subject.txt'') None (Some [])
     = get_template example_env (bundled_templates example_env) StrictUndefined ''subject.txt''"
    by simp
  then have a: "getTemplate example_env MessageFormatter (Some ''subject.txt'') None (Some [])
     = Inr \<lparr>nodes = [Name ''status_detected''], undefined_kind = StrictUndefined\<rparr>"
    by (simp add: get_template_def example_simps)
  have n: "\<not> truthy_str None" by (simp add: truthy_str_def)
  have i: "init example_env MessageFormatterMissingWorker default_buildAdditionalContext
          None (Some ''subject.txt'') None None (Some []) None None = Inr file_formatter"
    by (simp add: init_def getTemplate_def truthy_str_def get_template_def
          file_formatter_def example_simps)
  from C10_empty_inline_content
         [of example_env MessageFormatterMissingWorker _ _ None default_buildAdditionalContext
             None "Some ''subject.txt''" None None None] n i
  have s: "subject_template file_formatter = None" by blast
  from a n i s show ?thesis by blast
qed

section \<open>The extra context\<close>

lemma update_wins: "other k = Some v \<Longrightarrow> update d other k = Some v"
  by (simp add: update_def)

lemma update_keeps: "other k = None \<Longrightarrow> update d other k = d k"
  by (simp add: update_def)

lemma update_dom: "dom d \<subseteq> dom (update d other)"
  by (auto simp: update_def split: option.splits)

text \<open>
  Claim C5. In \<open>format_message_for_build\<close> and in
  \<open>formatMessageForMissingWorker\<close> the message is rendered over the context that
  the hook \<open>buildAdditionalContext\<close> leaves behind, updated with the extra context
  of the formatter. In that context every name the extra context binds has the value
  the extra context gives it, every other name has the value it had after the hook,
  and no name bound after the hook is lost.
\<close>

theorem C5_extra_context_merged_last:
  "(\<forall>ctx. buildAdditionalContext self master
             (build_context E mode buildername build master blamelist) = Inr ctx \<longrightarrow>
      format_message_for_build E self mode buildername build master blamelist
        = renderMessage E self (update ctx (self_ctx self))
      \<and> (\<forall>k v. self_ctx self k = Some v \<longrightarrow> update ctx (self_ctx self) k = Some v)
      \<and> (\<forall>k. self_ctx self k = None \<longrightarrow> update ctx (self_ctx self) k = ctx k)
      \<and> dom ctx \<subseteq> dom (update ctx (self_ctx self)))
   \<and> (\<forall>ctx. buildAdditionalContext self master (missing_worker_context master worker) = Inr ctx
       \<longrightarrow>
      formatMessageForMissingWorker E self master worker
        = renderMessage E self (update ctx (self_ctx self))
      \<and> (\<forall>k v. self_ctx self k = Some v \<longrightarrow> update ctx (self_ctx self) k = Some v)
      \<and> (\<forall>k. self_ctx self k = None \<longrightarrow> update ctx (self_ctx self) k = ctx k)
      \<and> dom ctx \<subseteq> dom (update ctx (self_ctx self)))"
proof -
  have b: "\<forall>ctx. buildAdditionalContext self master
             (build_context E mode buildername build master blamelist) = Inr ctx \<longrightarrow>
      format_message_for_build E self mode buildername build master blamelist
        = renderMessage E self (update ctx (self_ctx self))"
    by (simp add: format_message_for_build_def Let_def)
  have w: "\<forall>ctx. buildAdditionalContext self master (missing_worker_context master worker)
             = Inr ctx \<longrightarrow>
      formatMessageForMissingWorker E self master worker
        = renderMessage E self (update ctx (self_ctx self))"
    by (simp add: formatMessageForMissingWorker_def Let_def)
  from b w update_wins [of "self_ctx self"] update_keeps [of "self_ctx self"]
       update_dom [of _ "self_ctx self"]
  show ?thesis by blast
qed


theorem C5_extra_context_merged_last_witness:
  "buildAdditionalContext override_formatter example_master
     (build_context example_env [''change''] ''runtests'' example_build example_master [''alice''])
     = Inr (build_context example_env [''change''] ''runtests'' example_build example_master
              [''alice''])
   \<and> build_context example_env [''change''] ''runtests'' example_build example_master [''alice'']
        ''summary'' = Some (CStr ''Build succeeded!'')
   \<and> format_message_for_build example_env override_formatter [''change''] ''runtests''
        example_build example_master [''alice'']
       = Inr [''body'' \<mapsto> ''overridden'', ''type'' \<mapsto> ''plain'']
   \<and> buildAdditionalContext worker_override_formatter example_master
        (missing_worker_context example_master example_worker)
       = Inr (missing_worker_context example_master example_worker)
   \<and> missing_worker_context example_master example_worker ''buildbot_title''
       = Some (CStr ''Buildbot'')
   \<and> formatMessageForMissingWorker example_env worker_override_formatter example_master
        example_worker
       = Inr [''body'' \<mapsto> ''overridden'', ''type'' \<mapsto> ''plain'']"
proof -
  define bctx where "bctx = build_context example_env [''change''] ''runtests'' example_build
                              example_master [''alice'']"
  define wctx where "wctx = missing_worker_context example_master example_worker"
  have h: "buildAdditionalContext override_formatter example_master bctx = Inr bctx"
    by (simp add: override_formatter_def default_buildAdditionalContext_def)
  have hw: "buildAdditionalContext worker_override_formatter example_master wctx = Inr wctx"
    by (simp add: worker_override_formatter_def default_buildAdditionalContext_def)
  have summary: "get_message_summary_text buildbot_results example_build (Some 0)
                   = ''Build succeeded!''"
    by (simp add: get_message_summary_text_def buildbot_results_def)
  have res: "results_module example_env = buildbot_results"
    by (simp add: example_env_def)
  have br: "build_results example_build = Some 0"
    by (simp add: example_build_def)
  have base: "bctx ''summary'' = Some (CStr ''Build succeeded!'')"
    unfolding bctx_def build_context_def Let_def res br summary
    by simp
  have wbase: "wctx ''buildbot_title'' = Some (CStr ''Buildbot'')"
    unfolding wctx_def missing_worker_context_def
    by (simp add: example_master_def)
  have x: "self_ctx override_formatter ''summary'' = Some (CStr ''overridden'')"
    by (simp add: override_formatter_def)
  have xw: "self_ctx worker_override_formatter ''buildbot_title'' = Some (CStr ''overridden'')"
    by (simp add: worker_override_formatter_def)
  note T = C5_extra_context_merged_last
         [of override_formatter example_master example_env "[''change'']" "''runtests''"
             example_build "[''alice'']" example_worker]
  note TW = C5_extra_context_merged_last
         [of worker_override_formatter example_master example_env "[''change'']" "''runtests''"
             example_build "[''alice'']" example_worker]
  note B = T [THEN conjunct1, THEN spec, THEN mp, OF h [unfolded bctx_def], folded bctx_def]
  note W = TW [THEN conjunct2, THEN spec, THEN mp, OF hw [unfolded wctx_def], folded wctx_def]
  from B have f: "format_message_for_build example_env override_formatter [''change'']
             ''runtests'' example_build example_master [''alice'']
           = renderMessage example_env override_formatter
               (update bctx (self_ctx override_formatter))"
    by (rule conjunct1)
  from B x have u: "update bctx (self_ctx override_formatter) ''summary''
                      = Some (CStr ''overridden'')"
    by blast
  from W have fw: "formatMessageForMissingWorker example_env worker_override_formatter
               example_master example_worker
           = renderMessage example_env worker_override_formatter
               (update wctx (self_ctx worker_override_formatter))"
    by (rule conjunct1)
  from W xw have uw: "update wctx (self_ctx worker_override_formatter) ''buildbot_title''
                       = Some (CStr ''overridden'')"
    by blast
  have rb: "\<And>c. c ''summary'' = Some (CStr ''overridden'') \<Longrightarrow>
             render example_env (body_template override_formatter) c = Inr ''overridden''"
    by (simp add: render_def override_formatter_def example_env_def)
  have rbw: "\<And>c. c ''buildbot_title'' = Some (CStr ''overridden'') \<Longrightarrow>
             render example_env (body_template worker_override_formatter) c
               = Inr ''overridden''"
    by (simp add: render_def worker_override_formatter_def example_env_def)
  have s0: "subject_template override_formatter = None"
    by (simp add: override_formatter_def)
  have y0: "self_template_type override_formatter = ''plain''"
    by (simp add: override_formatter_def)
  have sw: "subject_template worker_override_formatter = None"
    by (simp add: worker_override_formatter_def)
  have yw: "self_template_type worker_override_formatter = ''plain''"
    by (simp add: worker_override_formatter_def)
  have r: "\<And>c. c ''summary'' = Some (CStr ''overridden'') \<Longrightarrow>
             renderMessage example_env override_formatter c
               = Inr [''body'' \<mapsto> ''overridden'', ''type'' \<mapsto> ''plain'']"
    unfolding renderMessage_def Let_def s0 y0
    by (simp only: rb sum.case option.case)
  have rw: "\<And>c. c ''buildbot_title'' = Some (CStr ''overridden'') \<Longrightarrow>
             renderMessage example_env worker_override_formatter c
               = Inr [''body'' \<mapsto> ''overridden'', ''type'' \<mapsto> ''plain'']"
    unfolding renderMessage_def Let_def sw yw
    by (simp only: rbw sum.case option.case)
  have g1: "format_message_for_build example_env override_formatter [''change''] ''runtests''
        example_build example_master [''alice'']
       = Inr [''body'' \<mapsto> ''overridden'', ''type'' \<mapsto> ''plain'']"
    unfolding f by (rule r [of "update bctx (self_ctx override_formatter)", OF u])
  have g2: "formatMessageForMissingWorker example_env worker_override_formatter example_master
              example_worker = Inr [''body'' \<mapsto> ''overridden'', ''type'' \<mapsto> ''plain'']"
    unfolding fw
    by (rule rw [of "update wctx (self_ctx worker_override_formatter)", OF uw])
  show ?thesis
    by (rule conjI [OF h [unfolded bctx_def] conjI [OF base [unfolded bctx_def] conjI [OF g1
              conjI [OF hw [unfolded wctx_def] conjI [OF wbase [unfolded wctx_def] g2]]]]])
qed

end
